theory Spec2Isabelle
  imports Complex_Main
begin

section \<open>ShaRP facade (sharp/base.py): data model\<close>

text \<open>
  The class \<^verbatim>\<open>ShaRP\<close> of \<^verbatim>\<open>sharp/base.py\<close> binds a configuration, the state written by
  \<^verbatim>\<open>fit\<close> and five computation modes. Floats are read as reals (rounding is not modelled);
  the one non-finite value the facade itself can create, the mean of no values, is kept.
\<close>

datatype error =
  TypeError | AttributeError | IndexError | ValueError
  | ValidationError | ConfigurationError | ComputationError

text \<open>A two-dimensional array keeps its column count, so that a table of no rows still
  has a shape.\<close>

datatype matrix = Matrix (ncols: nat) (rows: "real list list")

definition nrows :: "matrix \<Rightarrow> nat" where
  "nrows M = length (rows M)"

datatype ndarray = Vec "real list" | Arr2 matrix

text \<open>What a caller passes as a row: a position, a list of positions, or an array.\<close>

datatype sample = SIdx int | SList "int list" | SArr ndarray

text \<open>Values met as raw tables and as keyword arguments.\<close>

datatype pyval = PNone | PBool bool | PInt int | PList "int list" | PTable matrix

type_synonym kwargs = "string \<rightharpoonup> pyval"

datatype fname = FStr string | FInt int

datatype npfloat = NaN | Float real

datatype 'q qoi_cfg = QName string | QObj 'q

datatype 'g random_state_cfg = RNone | RSeed int | RInstance 'g

text \<open>The keyword arguments of one call of the measure; the generator is passed beside them.\<close>

record 'q margs =
  arg_row :: sample
  arg_col_idx :: int
  arg_set_cols_idx :: pyval
  arg_X :: matrix
  arg_qoi :: 'q
  arg_sample_size :: pyval
  arg_coalition_size :: pyval
  arg_replace :: bool

type_synonym ('q, 'g) measure_fn = "'q margs \<Rightarrow> 'g \<Rightarrow> (error + real) \<times> 'g"

text \<open>
  The object: the constructor's attributes, then the attributes that exist only once
  \<^verbatim>\<open>fit\<close> has written them (\<open>None\<close> is an absent attribute).
\<close>

record ('f, 'q, 'g) sharp =
  qoi :: "'q qoi_cfg option"
  target_function :: "'f option"
  measure_cfg :: string
  sample_size :: "int option"
  coalition_size :: "int option"
  replace :: bool
  random_state :: "'g random_state_cfg"
  n_jobs :: int
  verbose :: int
  priv_X :: pyval
  priv_y :: pyval
  priv_rng :: "'g option"
  qoi_fit :: "'q option"
  feature_names_fit :: "fname list option"
  measure_fit :: "('q, 'g) measure_fn option"

text \<open>
  The collaborators imported by \<^verbatim>\<open>base.py\<close> whose code is not part of the sources at hand
  (\<^verbatim>\<open>sharp.utils\<close>, the QoI classes, scikit-learn's generator) are parameters.
  \<open>qoi_X_attr\<close> reads the attribute \<^verbatim>\<open>X\<close> of a QoI object; \<open>global_rng\<close> is the
  process-wide generator that \<^verbatim>\<open>check_random_state(None)\<close> hands out and \<open>seed_rng\<close> the
  generator built from an integer seed.
\<close>

record ('f, 'q, 'g) env =
  check_inputs :: "pyval \<Rightarrow> pyval \<Rightarrow> error + (matrix \<times> pyval)"
  check_qoi :: "string \<Rightarrow> 'f option \<Rightarrow> matrix \<Rightarrow> error + 'q"
  check_feature_names :: "pyval \<Rightarrow> error + fname list"
  check_measure :: "string \<Rightarrow> error + ('q, 'g) measure_fn"
  qoi_X_attr :: "'q \<Rightarrow> error + pyval"
  global_rng :: 'g
  seed_rng :: "int \<Rightarrow> 'g"


section \<open>Indexing, calls and the task map\<close>

text \<open>Python's index normalisation: negative positions count from the end, anything out
  of range raises \<^verbatim>\<open>IndexError\<close>.\<close>

definition py_index :: "nat \<Rightarrow> int \<Rightarrow> error + nat" where
  "py_index n i =
     (if 0 \<le> i \<and> i < int n then Inr (nat i)
      else if - int n \<le> i \<and> i < 0 then Inr (nat (i + int n))
      else Inl IndexError)"

text \<open>\<^verbatim>\<open>X_[i]\<close> on a two-dimensional array.\<close>

definition getitem_row :: "matrix \<Rightarrow> int \<Rightarrow> error + sample" where
  "getitem_row M i =
     (case py_index (nrows M) i of
        Inl err \<Rightarrow> Inl err
      | Inr k \<Rightarrow> Inr (SArr (Vec (rows M ! k))))"

fun getitem_rows :: "matrix \<Rightarrow> int list \<Rightarrow> error + real list list" where
  "getitem_rows M [] = Inr []"
| "getitem_rows M (i # rest) =
     (case py_index (nrows M) i of
        Inl err \<Rightarrow> Inl err
      | Inr k \<Rightarrow>
          (case getitem_rows M rest of
             Inl err \<Rightarrow> Inl err
           | Inr rs \<Rightarrow> Inr (rows M ! k # rs)))"

text \<open>\<^verbatim>\<open>X[sample]\<close> in \<^verbatim>\<open>pairwise\<close>, where \<^verbatim>\<open>sample\<close> is an \<^verbatim>\<open>int\<close> or a \<^verbatim>\<open>list\<close>
  and \<^verbatim>\<open>X\<close> is whatever the caller put under the key \<^verbatim>\<open>"X"\<close>.\<close>

definition getitem :: "pyval \<Rightarrow> sample \<Rightarrow> error + sample" where
  "getitem X idx =
     (case X of
        PTable M \<Rightarrow>
          (case idx of
             SIdx i \<Rightarrow> getitem_row M i
           | SList l \<Rightarrow>
               (case getitem_rows M l of
                  Inl err \<Rightarrow> Inl err
                | Inr rs \<Rightarrow> Inr (SArr (Arr2 (Matrix (ncols M) rs))))
           | SArr a \<Rightarrow> Inl IndexError)
      | PList l \<Rightarrow>
          (case idx of
             SIdx i \<Rightarrow>
               (case py_index (length l) i of
                  Inl err \<Rightarrow> Inl err
                | Inr k \<Rightarrow> Inr (SIdx (l ! k)))
           | _ \<Rightarrow> Inl TypeError)
      | _ \<Rightarrow> Inl TypeError)"

text \<open>\<^verbatim>\<open>a.reshape(1, -1) if a.ndim == 1 else a\<close> and \<^verbatim>\<open>a.shape[-1]\<close> on an array.\<close>

definition reshape_row :: "ndarray \<Rightarrow> matrix" where
  "reshape_row a = (case a of Vec v \<Rightarrow> Matrix (length v) [v] | Arr2 M \<Rightarrow> M)"

definition shape_last :: "ndarray \<Rightarrow> nat" where
  "shape_last a = (case a of Vec v \<Rightarrow> length v | Arr2 M \<Rightarrow> ncols M)"

text \<open>\<^verbatim>\<open>list.index\<close>: the first position holding the value, else \<^verbatim>\<open>ValueError\<close>.\<close>

fun list_index :: "'a list \<Rightarrow> 'a \<Rightarrow> error + int" where
  "list_index [] v = Inl ValueError"
| "list_index (x # xs) v =
     (if x = v then Inr 0
      else (case list_index xs v of Inl err \<Rightarrow> Inl err | Inr k \<Rightarrow> Inr (k + 1)))"

text \<open>\<^verbatim>\<open>np.mean\<close> of a list of floats; of the empty list it is \<^verbatim>\<open>nan\<close> (with a warning).\<close>

definition np_mean :: "real list \<Rightarrow> npfloat" where
  "np_mean xs = (if xs = [] then NaN else Float (sum_list xs / real (length xs)))"

text \<open>
  Modelled from the spec: \<^verbatim>\<open>parallel_loop\<close> of \<^verbatim>\<open>sharp/utils/_parallelize.py\<close>, which is
  not among the sources. The spec describes a map over tasks with a worker count and an
  optional progress report, whose results are reassembled in input order and in which an
  error raised by a task aborts the whole call; the progress report has no effect on
  results. The model runs the tasks one after the other in input order, threading the
  object through them, whatever the worker count: interleavings of concurrent workers on
  the shared generator are outside the model.
\<close>

fun parallel_loop ::
  "('a \<Rightarrow> 's \<Rightarrow> (error + 'b) \<times> 's) \<Rightarrow> 'a list \<Rightarrow> int \<Rightarrow> pyval \<Rightarrow> 's \<Rightarrow> (error + 'b list) \<times> 's"
where
  "parallel_loop f [] n_jobs_v progress_bar s = (Inr [], s)"
| "parallel_loop f (x # xs) n_jobs_v progress_bar s =
     (case f x s of
        (Inl err, s') \<Rightarrow> (Inl err, s')
      | (Inr v, s') \<Rightarrow>
          (case parallel_loop f xs n_jobs_v progress_bar s' of
             (Inl err, s'') \<Rightarrow> (Inl err, s'')
           | (Inr vs, s'') \<Rightarrow> (Inr (v # vs), s'')))"

text \<open>
  scikit-learn's \<^verbatim>\<open>check_random_state\<close>: \<^verbatim>\<open>None\<close> gives the process-wide generator, an
  integer a generator freshly seeded with it, a generator instance itself.
\<close>

definition check_random_state :: "('f, 'q, 'g) env \<Rightarrow> 'g random_state_cfg \<Rightarrow> 'g" where
  "check_random_state e seed =
     (case seed of RNone \<Rightarrow> global_rng e | RSeed n \<Rightarrow> seed_rng e n | RInstance g \<Rightarrow> g)"

text \<open>
  The call \<^verbatim>\<open>self.measure_(row=..., col_idx=..., set_cols_idx=..., X=X_, qoi=self.qoi_,
  sample_size=..., coalition_size=..., replace=self.replace, rng=self._rng)\<close>, written twice
  in the source (in \<^verbatim>\<open>individual\<close> and in \<^verbatim>\<open>feature\<close>). The measure advances the generator
  object that \<^verbatim>\<open>self._rng\<close> refers to; nothing else of the object is written.
\<close>

definition call_measure ::
  "('f, 'q, 'g) sharp \<Rightarrow> sample \<Rightarrow> int \<Rightarrow> pyval \<Rightarrow> matrix \<Rightarrow> pyval \<Rightarrow> pyval
     \<Rightarrow> (error + real) \<times> ('f, 'q, 'g) sharp"
where
  "call_measure s row col_idx set_cols_idx X_v sample_size_v coalition_size_v =
     (case measure_fit s of
        None \<Rightarrow> (Inl AttributeError, s)
      | Some m \<Rightarrow>
     (case qoi_fit s of
        None \<Rightarrow> (Inl AttributeError, s)
      | Some q \<Rightarrow>
     (case priv_rng s of
        None \<Rightarrow> (Inl AttributeError, s)
      | Some g \<Rightarrow>
          (case m \<lparr>arg_row = row, arg_col_idx = col_idx, arg_set_cols_idx = set_cols_idx,
                    arg_X = X_v, arg_qoi = q, arg_sample_size = sample_size_v,
                    arg_coalition_size = coalition_size_v, arg_replace = replace s\<rparr> g of
             (r, g') \<Rightarrow> (r, s\<lparr>priv_rng := Some g'\<rparr>)))))"

section \<open>The operations of the class\<close>

definition fit ::
  "('f, 'q, 'g) env \<Rightarrow> ('f, 'q, 'g) sharp \<Rightarrow> pyval \<Rightarrow> pyval \<Rightarrow> (error + unit) \<times> ('f, 'q, 'g) sharp"
where
  "fit e s X y =
     (case check_inputs e X y of
        Inl err \<Rightarrow> (Inl err, s)
      | Inr (X_v, y_v) \<Rightarrow>
     (let s1 = s\<lparr>priv_X := PTable X_v, priv_y := y_v,
                  priv_rng := Some (check_random_state e (random_state s))\<rparr>
      in
     (case (case qoi s of
              None \<Rightarrow> check_qoi e ''rank'' (target_function s) X_v
            | Some (QName name) \<Rightarrow> check_qoi e name (target_function s) X_v
            | Some (QObj q) \<Rightarrow> Inr q) of
        Inl err \<Rightarrow> (Inl err, s1)
      | Inr q \<Rightarrow>
     (let s2 = s1\<lparr>qoi_fit := Some q\<rparr> in
     (case check_feature_names e X of
        Inl err \<Rightarrow> (Inl err, s2)
      | Inr names \<Rightarrow>
     (let s3 = s2\<lparr>feature_names_fit := Some names\<rparr> in
     (case check_measure e (measure_cfg s) of
        Inl err \<Rightarrow> (Inl err, s3)
      | Inr m \<Rightarrow> (Inr (), s3\<lparr>measure_fit := Some m\<rparr>))))))))"

definition individual ::
  "('f, 'q, 'g) env \<Rightarrow> ('f, 'q, 'g) sharp \<Rightarrow> sample \<Rightarrow> pyval \<Rightarrow> pyval \<Rightarrow> kwargs
     \<Rightarrow> (error + real list) \<times> ('f, 'q, 'g) sharp"
where
  "individual e s smp X y kw =
     (case (if X = PNone
            then (case qoi_fit s of None \<Rightarrow> Inl AttributeError | Some q \<Rightarrow> qoi_X_attr e q)
            else Inr X) of
        Inl err \<Rightarrow> (Inl err, s)
      | Inr X1 \<Rightarrow>
     (case check_inputs e X1 y of
        Inl err \<Rightarrow> (Inl err, s)
      | Inr (X_v, y_v) \<Rightarrow>
     (let set_cols_idx = (case kw ''set_cols_idx'' of Some v \<Rightarrow> v | None \<Rightarrow> PNone);
          coalition_size_v =
            (case kw ''coalition_size'' of
               Some v \<Rightarrow> v
             | None \<Rightarrow>
                 (case coalition_size s of
                    Some c \<Rightarrow> PInt c
                  | None \<Rightarrow> PInt (int (ncols X_v) - 1)))
      in
     (case (case smp of SIdx i \<Rightarrow> getitem_row X_v i | _ \<Rightarrow> Inr smp) of
        Inl err \<Rightarrow> (Inl err, s)
      | Inr row \<Rightarrow>
     (let sample_size_v =
            (case kw ''sample_size'' of
               Some v \<Rightarrow> v
             | None \<Rightarrow>
                 (case sample_size s of
                    Some n \<Rightarrow> PInt n
                  | None \<Rightarrow> PInt (int (nrows X_v))));
          verbosity = (case kw ''verbose'' of Some v \<Rightarrow> v | None \<Rightarrow> PInt (verbose s))
      in
     (case feature_names_fit s of
        None \<Rightarrow> (Inl AttributeError, s)
      | Some names \<Rightarrow>
          parallel_loop
            (\<lambda>col_idx st. call_measure st row (int col_idx) set_cols_idx X_v
                             sample_size_v coalition_size_v)
            [0..<length names] (n_jobs s) verbosity s))))))"

text \<open>
  A call \<^verbatim>\<open>self.individual(sample, X, k1=v1, ..., **kwargs)\<close>: a key of \<^verbatim>\<open>kwargs\<close> that
  repeats an explicit keyword or names a parameter already bound raises \<^verbatim>\<open>TypeError\<close>
  before the body runs; a key \<^verbatim>\<open>"y"\<close> binds the parameter \<^verbatim>\<open>y\<close>.
\<close>

definition call_individual ::
  "('f, 'q, 'g) env \<Rightarrow> ('f, 'q, 'g) sharp \<Rightarrow> sample \<Rightarrow> pyval \<Rightarrow> (string \<times> pyval) list \<Rightarrow> kwargs
     \<Rightarrow> (error + real list) \<times> ('f, 'q, 'g) sharp"
where
  "call_individual e s smp X explicit kw =
     (if list_ex (\<lambda>k. kw k \<noteq> None) (''self'' # ''sample'' # ''X'' # map fst explicit)
      then (Inl TypeError, s)
      else individual e s smp X (case kw ''y'' of Some v \<Rightarrow> v | None \<Rightarrow> PNone)
             ((kw ++ map_of explicit)(''y'' := None)))"

fun feature_loop ::
  "('f, 'q, 'g) sharp \<Rightarrow> matrix \<Rightarrow> int \<Rightarrow> pyval \<Rightarrow> pyval \<Rightarrow> pyval \<Rightarrow> nat list
     \<Rightarrow> (error + real list) \<times> ('f, 'q, 'g) sharp"
where
  "feature_loop s X_v col_idx set_cols_idx sample_size_v coalition_size_v [] = (Inr [], s)"
| "feature_loop s X_v col_idx set_cols_idx sample_size_v coalition_size_v (sample_idx # rest) =
     (case call_measure s (SArr (Vec (rows X_v ! sample_idx))) col_idx set_cols_idx X_v
             sample_size_v coalition_size_v of
        (Inl err, s') \<Rightarrow> (Inl err, s')
      | (Inr cell_influence, s') \<Rightarrow>
          (case feature_loop s' X_v col_idx set_cols_idx sample_size_v coalition_size_v rest of
             (Inl err, s'') \<Rightarrow> (Inl err, s'')
           | (Inr influences, s'') \<Rightarrow> (Inr (cell_influence # influences), s'')))"

definition feature ::
  "('f, 'q, 'g) env \<Rightarrow> ('f, 'q, 'g) sharp \<Rightarrow> fname \<Rightarrow> pyval \<Rightarrow> pyval \<Rightarrow> kwargs
     \<Rightarrow> (error + npfloat) \<times> ('f, 'q, 'g) sharp"
where
  "feature e s feat X y kw =
     (case check_inputs e X y of
        Inl err \<Rightarrow> (Inl err, s)
      | Inr (X_v, y_v) \<Rightarrow>
     (case (case feat of
              FStr name \<Rightarrow>
                (case feature_names_fit s of
                   None \<Rightarrow> Inl AttributeError
                 | Some names \<Rightarrow> list_index names feat)
            | FInt i \<Rightarrow> Inr i) of
        Inl err \<Rightarrow> (Inl err, s)
      | Inr col_idx \<Rightarrow>
     (let set_cols_idx = (case kw ''set_cols_idx'' of Some v \<Rightarrow> v | None \<Rightarrow> PNone);
          coalition_size_v =
            (case kw ''coalition_size'' of
               Some v \<Rightarrow> v
             | None \<Rightarrow>
                 (case coalition_size s of
                    Some c \<Rightarrow> PInt c
                  | None \<Rightarrow> PInt (int (ncols X_v) - 1)));
          sample_size_v =
            (case kw ''sample_size'' of
               Some v \<Rightarrow> v
             | None \<Rightarrow>
                 (case sample_size s of
                    Some n \<Rightarrow> PInt n
                  | None \<Rightarrow> PInt (int (nrows X_v))))
      in
     (case feature_loop s X_v col_idx set_cols_idx sample_size_v coalition_size_v
             [0..<nrows X_v] of
        (Inl err, s') \<Rightarrow> (Inl err, s')
      | (Inr influences, s') \<Rightarrow> (Inr (np_mean influences), s')))))"

definition all ::
  "('f, 'q, 'g) env \<Rightarrow> ('f, 'q, 'g) sharp \<Rightarrow> pyval \<Rightarrow> pyval \<Rightarrow> kwargs
     \<Rightarrow> (error + real list list) \<times> ('f, 'q, 'g) sharp"
where
  "all e s X y kw =
     (case (if priv_X s \<noteq> PNone then Inr (priv_X s)
            else (case check_inputs e X PNone of
                    Inl err \<Rightarrow> Inl err
                  | Inr (X0, y0) \<Rightarrow> Inr (PTable X0))) of
        Inl err \<Rightarrow> (Inl err, s)
      | Inr X_ref \<Rightarrow>
     (case check_inputs e X y of
        Inl err \<Rightarrow> (Inl err, s)
      | Inr (X_v, y_v) \<Rightarrow>
          parallel_loop
            (\<lambda>sample_idx st. call_individual e st (SArr (Vec (rows X_v ! sample_idx))) X_ref
                                [(''verbose'', PBool False)] kw)
            [0..<nrows X_v] (n_jobs s) (PInt (verbose s)) s))"

definition pairwise ::
  "('f, 'q, 'g) env \<Rightarrow> ('f, 'q, 'g) sharp \<Rightarrow> sample \<Rightarrow> sample \<Rightarrow> kwargs
     \<Rightarrow> (error + real list) \<times> ('f, 'q, 'g) sharp"
where
  "pairwise e s sample1 sample2 kw =
     (case (case kw ''X'' of
              None \<Rightarrow> Inr (sample1, sample2)
            | Some X \<Rightarrow>
                (case (case sample1 of SArr a \<Rightarrow> Inr sample1 | _ \<Rightarrow> getitem X sample1) of
                   Inl err \<Rightarrow> Inl err
                 | Inr s1 \<Rightarrow>
                     (case (case sample2 of SArr a \<Rightarrow> Inr sample2 | _ \<Rightarrow> getitem X sample2) of
                        Inl err \<Rightarrow> Inl err
                      | Inr s2 \<Rightarrow> Inr (s1, s2)))) of
        Inl err \<Rightarrow> (Inl err, s)
      | Inr (sample1_v, sample2_v) \<Rightarrow>
     (case (case sample2_v of
              SArr a \<Rightarrow> Inr (reshape_row a)
            | _ \<Rightarrow> Inl AttributeError) of
        Inl err \<Rightarrow> (Inl err, s)
      | Inr sample2_r \<Rightarrow>
     (let sample_size_v =
            (case kw ''sample_size'' of
               Some v \<Rightarrow> v
             | None \<Rightarrow>
                 (case sample_size s of
                    Some n \<Rightarrow>
                      PInt (if n > int (nrows sample2_r) then int (nrows sample2_r) else n)
                  | None \<Rightarrow> PInt (int (nrows sample2_r))))
      in
     (case (case kw ''coalition_size'' of
              Some v \<Rightarrow> Inr v
            | None \<Rightarrow>
                (case coalition_size s of
                   Some c \<Rightarrow> Inr (PInt c)
                 | None \<Rightarrow>
                     (case sample1_v of
                        SArr a \<Rightarrow> Inr (PInt (int (shape_last a) - 1))
                      | _ \<Rightarrow> Inl AttributeError))) of
        Inl err \<Rightarrow> (Inl err, s)
      | Inr coalition_size_v \<Rightarrow>
          call_individual e s sample1_v (PTable sample2_r)
            [(''sample_size'', sample_size_v), (''coalition_size'', coalition_size_v)] kw))))"

text \<open>The call \<^verbatim>\<open>self.pairwise(*samples, verbose=False, **kwargs)\<close>.\<close>

definition call_pairwise ::
  "('f, 'q, 'g) env \<Rightarrow> ('f, 'q, 'g) sharp \<Rightarrow> sample \<Rightarrow> sample \<Rightarrow> (string \<times> pyval) list \<Rightarrow> kwargs
     \<Rightarrow> (error + real list) \<times> ('f, 'q, 'g) sharp"
where
  "call_pairwise e s sample1 sample2 explicit kw =
     (if list_ex (\<lambda>k. kw k \<noteq> None) (''self'' # ''sample1'' # ''sample2'' # map fst explicit)
      then (Inl TypeError, s)
      else pairwise e s sample1 sample2 (kw ++ map_of explicit))"

definition pairwise_set ::
  "('f, 'q, 'g) env \<Rightarrow> ('f, 'q, 'g) sharp \<Rightarrow> sample list \<Rightarrow> sample list \<Rightarrow> kwargs
     \<Rightarrow> (error + real list list) \<times> ('f, 'q, 'g) sharp"
where
  "pairwise_set e s samples1 samples2 kw =
     parallel_loop
       (\<lambda>samples st. call_pairwise e st (fst samples) (snd samples)
                        [(''verbose'', PBool False)] kw)
       (zip samples1 samples2) (n_jobs s) (PInt (verbose s)) s"


section \<open>Auxiliary notions for the statements\<close>

text \<open>The object as it is after the first \<open>k\<close> tasks of a task map.\<close>

fun loop_state :: "('a \<Rightarrow> 's \<Rightarrow> (error + 'b) \<times> 's) \<Rightarrow> 'a list \<Rightarrow> 's \<Rightarrow> nat \<Rightarrow> 's" where
  "loop_state f xs s 0 = s"
| "loop_state f [] s (Suc k) = s"
| "loop_state f (x # xs) s (Suc k) = loop_state f xs (snd (f x s)) k"

text \<open>\<open>only_rng s s'\<close>: the object \<open>s'\<close> is \<open>s\<close> except, possibly, for the state of
  the generator.\<close>

definition only_rng :: "('f, 'q, 'g) sharp \<Rightarrow> ('f, 'q, 'g) sharp \<Rightarrow> bool" where
  "only_rng s s' =
     (qoi_fit s' = qoi_fit s \<and> measure_fit s' = measure_fit s
      \<and> feature_names_fit s' = feature_names_fit s
      \<and> priv_X s' = priv_X s \<and> priv_y s' = priv_y s
      \<and> s' = s\<lparr>priv_rng := priv_rng s'\<rparr>)"



section \<open>QoI resolution as the spec words it\<close>

text \<open>
  Modelled from the spec: the QoI objects and \<^verbatim>\<open>check_qoi\<close> of \<^verbatim>\<open>sharp.utils\<close>, which are
  not among the sources. The spec: a QoI is constructed from either a named variant
  (score, rank, top-k, pairwise) plus the external ranking function, or a fully custom
  externally supplied payoff function plus reference data; resolution fails with
  \<^verbatim>\<open>ConfigurationError\<close> when neither a recognized QoI name nor a custom payoff function is
  supplied.
\<close>

datatype 'f qoi_obj = NamedQoI string "'f option" matrix | CustomQoI 'f matrix

definition recognized_qoi :: "string list" where
  "recognized_qoi = [''score'', ''rank'', ''top-k'', ''pairwise'']"

definition spec_check_qoi :: "string \<Rightarrow> 'f option \<Rightarrow> matrix \<Rightarrow> error + 'f qoi_obj" where
  "spec_check_qoi name tf X_v =
     (if name \<in> set recognized_qoi then Inr (NamedQoI name tf X_v)
      else (case tf of
              Some f \<Rightarrow> Inr (CustomQoI f X_v)
            | None \<Rightarrow> Inl ConfigurationError))"

definition spec_qoi_X :: "'f qoi_obj \<Rightarrow> error + pyval" where
  "spec_qoi_X q = (case q of NamedQoI name tf X_v \<Rightarrow> Inr (PTable X_v) | CustomQoI f X_v \<Rightarrow> Inr (PTable X_v))"

section \<open>A concrete instance\<close>

text \<open>
  Collaborators for running the operations on concrete input: validation that accepts
  tables as they are, positional feature names, a generator that counts its draws, and a
  measure that reports how far the row's value lies from the first reference row's value
  in the column.
\<close>

definition ex_check_inputs :: "pyval \<Rightarrow> pyval \<Rightarrow> error + (matrix \<times> pyval)" where
  "ex_check_inputs X y = (case X of PTable M \<Rightarrow> Inr (M, y) | _ \<Rightarrow> Inl ValidationError)"

definition ex_check_feature_names :: "pyval \<Rightarrow> error + fname list" where
  "ex_check_feature_names X =
     (case X of PTable M \<Rightarrow> Inr (map (\<lambda>k. FInt (int k)) [0..<ncols M]) | _ \<Rightarrow> Inl ValidationError)"

definition ref_gap_measure :: "('q, nat) measure_fn" where
  "ref_gap_measure a g =
     (case arg_row a of
        SArr (Vec v) \<Rightarrow>
          (case rows (arg_X a) of
             [] \<Rightarrow> (Inl ConfigurationError, g)
           | r # rest \<Rightarrow>
               (if 0 \<le> arg_col_idx a \<and> nat (arg_col_idx a) < length v
                   \<and> nat (arg_col_idx a) < length r
                then (Inr (v ! nat (arg_col_idx a) - r ! nat (arg_col_idx a)), Suc g)
                else (Inl ConfigurationError, g)))
      | _ \<Rightarrow> (Inl ConfigurationError, g))"

definition ex_check_measure :: "string \<Rightarrow> error + ('q, nat) measure_fn" where
  "ex_check_measure name =
     (if name = ''ref_gap'' then Inr ref_gap_measure else Inl ConfigurationError)"

definition ex_env :: "(string, string qoi_obj, nat) env" where
  "ex_env =
     \<lparr>check_inputs = ex_check_inputs, check_qoi = spec_check_qoi,
      check_feature_names = ex_check_feature_names, check_measure = ex_check_measure,
      qoi_X_attr = spec_qoi_X, global_rng = 0, seed_rng = (\<lambda>n. nat (abs n))\<rparr>"

definition ex_config :: "(string, string qoi_obj, nat) sharp" where
  "ex_config =
     \<lparr>qoi = None, target_function = Some ''score'', measure_cfg = ''ref_gap'',
      sample_size = None, coalition_size = None, replace = False,
      random_state = RSeed 7, n_jobs = 1, verbose = 0,
      priv_X = PNone, priv_y = PNone, priv_rng = None,
      qoi_fit = None, feature_names_fit = None, measure_fit = None\<rparr>"

text \<open>The object after \<^verbatim>\<open>fit\<close> on a reference table.\<close>

definition ex_session :: "matrix \<Rightarrow> (string, string qoi_obj, nat) sharp" where
  "ex_session X_ref = snd (fit ex_env ex_config (PTable X_ref) PNone)"

text \<open>A one-column reference table, a one-column table to explain, and the object fitted
  on the former.\<close>

definition ref_table :: matrix where
  "ref_table = Matrix 1 [[0]]"

definition data_table :: matrix where
  "data_table = Matrix 1 [[2], [4]]"

definition ex_fitted :: "(string, string qoi_obj, nat) sharp" where
  "ex_fitted = ex_session ref_table"



section \<open>The task map and the frame of the calls\<close>

lemma only_rng_refl: "only_rng s s"
  by (simp add: only_rng_def)

lemma only_rng_trans: "only_rng s s' \<Longrightarrow> only_rng s' s'' \<Longrightarrow> only_rng s s''"
  unfolding only_rng_def by (cases s, cases s', cases s'') simp

lemma parallel_loop_length:
  "parallel_loop f xs n pb s = (Inr vs, s') \<Longrightarrow> length vs = length xs"
  by (induction xs arbitrary: s vs s') (auto split: prod.splits sum.splits)


lemma parallel_loop_nth:
  "parallel_loop f xs n pb s = (Inr vs, s') \<Longrightarrow> i < length xs \<Longrightarrow>
     f (xs ! i) (loop_state f xs s i) = (Inr (vs ! i), loop_state f xs s (Suc i))"
proof (induction xs arbitrary: s vs s' i)
  case Nil
  then show ?case by simp
next
  case (Cons x xs)
  from Cons.prems(1) obtain v s1 vs1 where
    fx: "f x s = (Inr v, s1)" and rest: "parallel_loop f xs n pb s1 = (Inr vs1, s')"
    and vs: "vs = v # vs1"
    by (auto split: prod.splits sum.splits)
  show ?case
  proof (cases i)
    case 0
    then show ?thesis using fx vs by simp
  next
    case (Suc k)
    with Cons.prems(2) have "k < length xs" by simp
    from Cons.IH [OF rest this] show ?thesis using Suc fx vs by simp
  qed
qed

lemma parallel_loop_only_rng:
  assumes "\<And>x st. only_rng st (snd (f x st))"
  shows "only_rng s (snd (parallel_loop f xs n pb s))"
proof (induction xs arbitrary: s)
  case Nil
  show ?case by (simp add: only_rng_refl)
next
  case (Cons x xs)
  have a: "only_rng s (snd (f x s))" by (rule assms)
  have b: "only_rng (snd (f x s)) (snd (parallel_loop f xs n pb (snd (f x s))))" by (rule Cons.IH)
  show ?case
    using a only_rng_trans [OF a b]
    by (auto split: prod.splits sum.splits)
qed

lemma loop_state_only_rng:
  assumes "\<And>x st. only_rng st (snd (f x st))"
  shows "only_rng s (loop_state f xs s k)"
proof (induction xs arbitrary: s k)
  case Nil
  show ?case by (cases k) (simp_all add: only_rng_refl)
next
  case (Cons x xs)
  show ?case
  proof (cases k)
    case 0
    then show ?thesis by (simp add: only_rng_refl)
  next
    case (Suc j)
    have a: "only_rng s (snd (f x s))" by (rule assms)
    show ?thesis using only_rng_trans [OF a Cons.IH [of "snd (f x s)" j]] Suc by simp
  qed
qed

lemma call_measure_only_rng:
  "only_rng s (snd (call_measure s row c sc Xv ss cs))"
  by (auto simp: call_measure_def only_rng_def split: option.splits prod.splits)

lemma individual_only_rng: "only_rng s (snd (individual e s smp X y kw))"
proof -
  have loop: "\<And>row sc Xv ss cs names vb.
      only_rng s (snd (parallel_loop (\<lambda>col_idx st. call_measure st row (int col_idx) sc Xv ss cs)
          names (n_jobs s) vb s))"
    by (rule parallel_loop_only_rng) (rule call_measure_only_rng)
  show ?thesis
  proof (cases "feature_names_fit s")
    case None
    then show ?thesis
      unfolding individual_def Let_def
      by (simp add: only_rng_refl split: sum.split prod.split)
  next
    case (Some names)
    then show ?thesis
      unfolding individual_def Let_def
      by (simp add: loop only_rng_refl split: sum.split prod.split)
  qed
qed

lemma call_individual_only_rng: "only_rng s (snd (call_individual e s smp X ex kw))"
  unfolding call_individual_def
  by (simp add: individual_only_rng only_rng_refl)

lemma feature_loop_only_rng:
  "only_rng s (snd (feature_loop s Xv c sc ss cs idxs))"
proof (induction idxs arbitrary: s)
  case Nil
  show ?case by (simp add: only_rng_refl)
next
  case (Cons i idxs)
  let ?s1 = "snd (call_measure s (SArr (Vec (rows Xv ! i))) c sc Xv ss cs)"
  have a: "only_rng s ?s1" by (rule call_measure_only_rng)
  have b: "only_rng ?s1 (snd (feature_loop ?s1 Xv c sc ss cs idxs))" by (rule Cons.IH)
  show ?case
    using a only_rng_trans [OF a b]
    by (auto split: prod.splits sum.splits)
qed

lemma feature_only_rng: "only_rng s (snd (feature e s feat X y kw))"
proof -
  have loop: "\<And>Xv c sc ss cs idxs r s'. feature_loop s Xv c sc ss cs idxs = (r, s') \<Longrightarrow> only_rng s s'"
    using feature_loop_only_rng by (metis snd_conv)
  show ?thesis
    unfolding feature_def Let_def
    by (auto simp: only_rng_refl split: sum.split prod.split dest: loop)
qed

lemma all_only_rng: "only_rng s (snd (all e s X y kw))"
proof -
  have loop: "\<And>Xv Xr names vb.
      only_rng s (snd (parallel_loop (\<lambda>sample_idx st. call_individual e st (SArr (Vec (rows Xv ! sample_idx))) Xr
                                [(''verbose'', PBool False)] kw)
          names (n_jobs s) vb s))"
    by (rule parallel_loop_only_rng) (rule call_individual_only_rng)
  show ?thesis
    unfolding all_def
    by (simp add: loop only_rng_refl split: sum.split prod.split)
qed

lemma pairwise_only_rng: "only_rng s (snd (pairwise e s s1 s2 kw))"
  unfolding pairwise_def Let_def
  by (simp add: call_individual_only_rng only_rng_refl split: sum.split prod.split)

lemma call_pairwise_only_rng: "only_rng s (snd (call_pairwise e s s1 s2 ex kw))"
  unfolding call_pairwise_def
  by (simp add: pairwise_only_rng only_rng_refl)

lemma pairwise_set_only_rng: "only_rng s (snd (pairwise_set e s ss1 ss2 kw))"
  unfolding pairwise_set_def
  by (rule parallel_loop_only_rng) (rule call_pairwise_only_rng)

section \<open>Evaluation of the concrete instance\<close>

lemma ex_session_eq:
  "ex_session M =
     ex_config\<lparr>priv_X := PTable M, priv_y := PNone, priv_rng := Some 7,
       qoi_fit := Some (NamedQoI ''rank'' (Some ''score'') M),
       feature_names_fit := Some (map (\<lambda>k. FInt (int k)) [0..<ncols M]),
       measure_fit := Some ref_gap_measure\<rparr>"
  by (simp add: ex_session_def fit_def ex_env_def ex_config_def ex_check_inputs_def
        spec_check_qoi_def recognized_qoi_def ex_check_feature_names_def
        ex_check_measure_def check_random_state_def Let_def)

lemma ex_env_sel:
  "check_inputs ex_env = ex_check_inputs" "qoi_X_attr ex_env = spec_qoi_X"
  "check_qoi ex_env = spec_check_qoi" "check_feature_names ex_env = ex_check_feature_names"
  "check_measure ex_env = ex_check_measure"
  by (simp_all add: ex_env_def)

lemma ex_fitted_eq:
  "ex_fitted =
     ex_config\<lparr>priv_X := PTable ref_table, priv_y := PNone, priv_rng := Some 7,
       qoi_fit := Some (NamedQoI ''rank'' (Some ''score'') ref_table),
       feature_names_fit := Some [FInt 0],
       measure_fit := Some ref_gap_measure\<rparr>"
  by (simp add: ex_fitted_def ex_session_eq) (simp add: ref_table_def)

lemma ex_individual:
  "individual ex_env ex_fitted (SArr (Vec [2])) PNone PNone Map.empty
     = (Inr [2], ex_fitted\<lparr>priv_rng := Some 8\<rparr>)"
  by (simp add: individual_def ex_fitted_eq ex_env_sel ex_config_def spec_qoi_X_def
        ex_check_inputs_def call_measure_def ref_gap_measure_def nrows_def Let_def
        ref_table_def)



section \<open>What \<^verbatim>\<open>individual\<close> computes\<close>

lemma individual_eq:
  assumes "(if X = PNone
            then (case qoi_fit s of None \<Rightarrow> Inl AttributeError | Some q \<Rightarrow> qoi_X_attr e q)
            else Inr X) = Inr X1"
    and "check_inputs e X1 y = Inr (Xv, yv)"
    and "(case smp of SIdx i \<Rightarrow> getitem_row Xv i | _ \<Rightarrow> Inr smp) = Inr row"
    and "feature_names_fit s = Some names"
  shows "individual e s smp X y kw =
     parallel_loop
       (\<lambda>col_idx st. call_measure st row (int col_idx)
          (case kw ''set_cols_idx'' of Some v \<Rightarrow> v | None \<Rightarrow> PNone) Xv
          (case kw ''sample_size'' of
             Some v \<Rightarrow> v
           | None \<Rightarrow> (case sample_size s of Some n \<Rightarrow> PInt n | None \<Rightarrow> PInt (int (nrows Xv))))
          (case kw ''coalition_size'' of
             Some v \<Rightarrow> v
           | None \<Rightarrow> (case coalition_size s of Some c \<Rightarrow> PInt c | None \<Rightarrow> PInt (int (ncols Xv) - 1))))
       [0..<length names] (n_jobs s)
       (case kw ''verbose'' of Some v \<Rightarrow> v | None \<Rightarrow> PInt (verbose s)) s"
  unfolding individual_def Let_def
  by (simp only: assms sum.case prod.case option.case)

lemma individual_Inr:
  assumes "individual e s smp X y kw = (Inr v, s')"
  shows "\<exists>X1 Xv yv row names.
     (if X = PNone
      then (case qoi_fit s of None \<Rightarrow> Inl AttributeError | Some q \<Rightarrow> qoi_X_attr e q)
      else Inr X) = Inr X1
     \<and> check_inputs e X1 y = Inr (Xv, yv)
     \<and> (case smp of SIdx i \<Rightarrow> getitem_row Xv i | _ \<Rightarrow> Inr smp) = Inr row
     \<and> feature_names_fit s = Some names"
proof -
  let ?a = "if X = PNone
      then (case qoi_fit s of None \<Rightarrow> Inl AttributeError | Some q \<Rightarrow> qoi_X_attr e q)
      else Inr X"
  obtain X1 where a: "?a = Inr X1"
  proof (cases ?a)
    case (Inl err)
    with assms show ?thesis unfolding individual_def by (simp only: sum.case) simp
  next
    case (Inr b)
    then show ?thesis using that by blast
  qed
  obtain Xv yv where b: "check_inputs e X1 y = Inr (Xv, yv)"
  proof (cases "check_inputs e X1 y")
    case (Inl err)
    with assms a show ?thesis unfolding individual_def by (simp only: sum.case) simp
  next
    case (Inr p)
    then show ?thesis using that by (cases p) blast
  qed
  let ?c = "case smp of SIdx i \<Rightarrow> getitem_row Xv i | _ \<Rightarrow> Inr smp"
  obtain row where c: "?c = Inr row"
  proof (cases ?c)
    case (Inl err)
    with assms a b show ?thesis unfolding individual_def Let_def
      by (simp only: sum.case prod.case) simp
  next
    case (Inr r)
    then show ?thesis using that by blast
  qed
  obtain names where d: "feature_names_fit s = Some names"
  proof (cases "feature_names_fit s")
    case None
    with assms a b c show ?thesis unfolding individual_def Let_def
      by (simp only: sum.case prod.case option.case) simp
  next
    case (Some n)
    then show ?thesis using that by blast
  qed
  from a b c d show ?thesis by blast
qed


lemma individual_length:
  assumes "individual e s smp X y kw = (Inr v, s')" and "feature_names_fit s = Some names"
  shows "length v = length names"
proof -
  from individual_Inr [OF assms(1)] obtain X1 Xv yv row names' where
    h: "(if X = PNone
         then (case qoi_fit s of None \<Rightarrow> Inl AttributeError | Some q \<Rightarrow> qoi_X_attr e q)
         else Inr X) = Inr X1"
       "check_inputs e X1 y = Inr (Xv, yv)"
       "(case smp of SIdx i \<Rightarrow> getitem_row Xv i | _ \<Rightarrow> Inr smp) = Inr row"
       "feature_names_fit s = Some names'"
    by blast
  from h(4) assms(2) have n: "names' = names" by simp
  from assms(1) individual_eq [OF h, of kw] show ?thesis
    using parallel_loop_length [where xs = "[0..<length names']"] n by fastforce
qed

section \<open>Nested calls and further evaluations\<close>

lemma call_pairwise_Inr:
  "call_pairwise e st a b ex kw = (Inr r, st') \<Longrightarrow> pairwise e st a b (kw ++ map_of ex) = (Inr r, st')"
  by (simp add: call_pairwise_def split: if_splits)

lemma call_individual_Inr:
  "call_individual e st smp X ex kw = (Inr r, st') \<Longrightarrow>
     individual e st smp X (case kw ''y'' of Some v \<Rightarrow> v | None \<Rightarrow> PNone)
       ((kw ++ map_of ex)(''y'' := None)) = (Inr r, st')"
  by (simp add: call_individual_def split: if_splits)

lemmas ex_eval =
  ex_fitted_eq ex_env_sel ex_config_def spec_qoi_X_def
  ex_check_inputs_def call_measure_def ref_gap_measure_def nrows_def Let_def
  ref_table_def data_table_def reshape_row_def shape_last_def

lemma ex_pairwise_set:
  "pairwise_set ex_env ex_fitted [SArr (Vec [2]), SArr (Vec [5])] [SArr (Vec [1])] Map.empty
     = (Inr [[1]], ex_fitted\<lparr>priv_rng := Some 8\<rparr>)"
  by (simp add: pairwise_set_def call_pairwise_def pairwise_def call_individual_def
        individual_def ex_eval)

lemma ex_all:
  "all ex_env ex_fitted (PTable data_table) PNone Map.empty
     = (Inr [[2], [4]], ex_fitted\<lparr>priv_rng := Some 9\<rparr>)"
  by (simp add: all_def call_individual_def individual_def ex_eval upt_rec)



lemma all_Inr:
  assumes "all e s X y kw = (Inr M, s')" and "check_inputs e X y = Inr (Xv, yv)"
  shows "\<exists>X_ref. (priv_X s \<noteq> PNone \<longrightarrow> X_ref = priv_X s)
         \<and> (priv_X s = PNone \<longrightarrow> (\<exists>X0 y0. check_inputs e X PNone = Inr (X0, y0) \<and> X_ref = PTable X0))
         \<and> parallel_loop
            (\<lambda>sample_idx st. call_individual e st (SArr (Vec (rows Xv ! sample_idx))) X_ref
                                [(''verbose'', PBool False)] kw)
            [0..<nrows Xv] (n_jobs s) (PInt (verbose s)) s = (Inr M, s')"
proof (cases "priv_X s = PNone")
  case False
  with assms show ?thesis
    unfolding all_def by (simp only: if_True if_False sum.case prod.case not_False_eq_True) simp
next
  case True
  show ?thesis
  proof (cases "check_inputs e X PNone")
    case (Inl err)
    with assms True show ?thesis unfolding all_def by simp
  next
    case (Inr p)
    obtain X0 y0 where p: "p = (X0, y0)" by (cases p)
    with assms True Inr show ?thesis unfolding all_def by simp
  qed
qed

section \<open>Size resolution and delegation\<close>



lemma call_individual_ok:
  assumes "kw ''self'' = None" "kw ''sample'' = None" "kw ''X'' = None"
    and "\<forall>k\<in>set (map fst ex). kw k = None"
  shows "call_individual e s smp X ex kw =
           individual e s smp X (case kw ''y'' of Some v \<Rightarrow> v | None \<Rightarrow> PNone)
             ((kw ++ map_of ex)(''y'' := None))"
  using assms by (simp add: call_individual_def list_ex_iff)

lemma pairwise_arrays:
  assumes "kw ''X'' = None" "kw ''sample_size'' = None" "kw ''coalition_size'' = None"
    "kw ''self'' = None" "kw ''sample'' = None"
  shows "pairwise e s (SArr a1) (SArr a2) kw =
     individual e s (SArr a1) (PTable (reshape_row a2))
       (case kw ''y'' of Some v \<Rightarrow> v | None \<Rightarrow> PNone)
       ((kw ++ [''coalition_size'' \<mapsto>
                  PInt (case coalition_size s of Some c \<Rightarrow> c | None \<Rightarrow> int (shape_last a1) - 1),
                ''sample_size'' \<mapsto>
                  PInt (case sample_size s of
                          Some n \<Rightarrow> min n (int (nrows (reshape_row a2)))
                        | None \<Rightarrow> int (nrows (reshape_row a2)))])
        (''y'' := None))"
  by (cases "coalition_size s"; cases "sample_size s")
     (simp_all add: assms pairwise_def Let_def call_individual_ok min_def)



section \<open>What \<^verbatim>\<open>fit\<close> writes\<close>






section \<open>What \<^verbatim>\<open>feature\<close> computes, and single entries\<close>











section \<open>Claims\<close>

text \<open>
  C7. Each of the calls \<^verbatim>\<open>individual\<close>, \<^verbatim>\<open>feature\<close>, \<^verbatim>\<open>all\<close>, \<^verbatim>\<open>pairwise\<close> and
  \<^verbatim>\<open>pairwise_set\<close> leaves the state written by \<^verbatim>\<open>fit\<close> as it was: \<^verbatim>\<open>qoi_\<close>,
  \<^verbatim>\<open>measure_\<close>, \<^verbatim>\<open>feature_names_\<close>, \<^verbatim>\<open>_X\<close> and \<^verbatim>\<open>_y\<close> (and every constructor
  attribute) have the same values after the call as before, whether the call returns or
  raises; only the generator may have advanced.
\<close>

theorem calls_keep_fit_state:
  "only_rng s (snd (individual e s smp X y kw))
   \<and> only_rng s (snd (feature e s feat X y kw))
   \<and> only_rng s (snd (all e s X y kw))
   \<and> only_rng s (snd (pairwise e s sample1 sample2 kw))
   \<and> only_rng s (snd (pairwise_set e s samples1 samples2 kw))"
  by (simp add: individual_only_rng feature_only_rng all_only_rng pairwise_only_rng
        pairwise_set_only_rng)

theorem calls_keep_fit_state_witness:
  "only_rng ex_fitted (snd (individual ex_env ex_fitted (SArr (Vec [2])) PNone PNone Map.empty))
   \<and> priv_rng ex_fitted = Some 7
   \<and> priv_rng (snd (individual ex_env ex_fitted (SArr (Vec [2])) PNone PNone Map.empty)) = Some 8"
proof -
  have a: "priv_rng ex_fitted = Some 7"
    by (simp add: ex_fitted_eq)
  have b: "priv_rng (snd (individual ex_env ex_fitted (SArr (Vec [2])) PNone PNone Map.empty))
             = Some 8"
    by (simp add: ex_individual)
  from calls_keep_fit_state [of ex_fitted ex_env "SArr (Vec [2])" PNone PNone Map.empty] a b
  show ?thesis by blast
qed



text \<open>
  C2. When \<^verbatim>\<open>all(X)\<close> returns on a validated table of \<open>m\<close> rows, the result has \<open>m\<close> rows,
  one per input row in input order, each with one entry per resolved feature name (which
  is \<open>d\<close> columns for a table with the feature count of the session), and every row is
  computed by \<^verbatim>\<open>individual\<close> against one and the same reference set, fixed before the first
  row: the stored \<^verbatim>\<open>_X\<close> when there is one, else the validated \<^verbatim>\<open>X\<close> of the call.
\<close>

theorem all_matrix:
  fixes s :: "('f, 'q, 'g) sharp"
  assumes "all e s X y kw = (Inr M, s')"
    and "check_inputs e X y = Inr (X_v, y_v)"
    and "feature_names_fit s = Some names"
  shows "length M = nrows X_v
         \<and> (\<forall>r\<in>set M. length r = length names)
         \<and> (length names = ncols X_v \<longrightarrow> (\<forall>r\<in>set M. length r = ncols X_v))
         \<and> (\<exists>X_ref.
               (priv_X s \<noteq> PNone \<longrightarrow> X_ref = priv_X s)
               \<and> (priv_X s = PNone \<longrightarrow>
                    (\<exists>X0 y0. check_inputs e X PNone = Inr (X0, y0) \<and> X_ref = PTable X0))
               \<and> (let task = (\<lambda>sample_idx st.
                                 call_individual e st (SArr (Vec (rows X_v ! sample_idx))) X_ref
                                   [(''verbose'', PBool False)] kw);
                       state = loop_state task [0..<nrows X_v] s
                   in \<forall>i<nrows X_v.
                        individual e (state i) (SArr (Vec (rows X_v ! i))) X_ref
                            (case kw ''y'' of Some v \<Rightarrow> v | None \<Rightarrow> PNone)
                            ((kw(''verbose'' \<mapsto> PBool False))(''y'' := None))
                          = (Inr (M ! i), state (Suc i))))"
proof -
  from all_Inr [OF assms(1,2)] obtain X_ref where
    ref1: "priv_X s \<noteq> PNone \<longrightarrow> X_ref = priv_X s"
    and ref2: "priv_X s = PNone \<longrightarrow> (\<exists>X0 y0. check_inputs e X PNone = Inr (X0, y0) \<and> X_ref = PTable X0)"
    and run0: "parallel_loop
            (\<lambda>sample_idx st. call_individual e st (SArr (Vec (rows X_v ! sample_idx))) X_ref
                                [(''verbose'', PBool False)] kw)
            [0..<nrows X_v] (n_jobs s) (PInt (verbose s)) s = (Inr M, s')"
    by blast
  define task :: "nat \<Rightarrow> ('f, 'q, 'g) sharp \<Rightarrow> (error + real list) \<times> ('f, 'q, 'g) sharp"
    where "task = (\<lambda>sample_idx st. call_individual e st (SArr (Vec (rows X_v ! sample_idx))) X_ref
                                [(''verbose'', PBool False)] kw)"
  from run0 have run: "parallel_loop task [0..<nrows X_v] (n_jobs s) (PInt (verbose s)) s = (Inr M, s')"
    by (simp add: task_def)
  have len: "length M = nrows X_v"
    using parallel_loop_length [OF run] by simp
  have nth: "\<And>i. i < nrows X_v \<Longrightarrow>
       individual e (loop_state task [0..<nrows X_v] s i) (SArr (Vec (rows X_v ! i))) X_ref
           (case kw ''y'' of Some v \<Rightarrow> v | None \<Rightarrow> PNone)
           ((kw(''verbose'' \<mapsto> PBool False))(''y'' := None))
         = (Inr (M ! i), loop_state task [0..<nrows X_v] s (Suc i))"
  proof -
    fix i assume i: "i < nrows X_v"
    from parallel_loop_nth [OF run, of i] i
    have "call_individual e (loop_state task [0..<nrows X_v] s i) (SArr (Vec (rows X_v ! i))) X_ref
            [(''verbose'', PBool False)] kw
          = (Inr (M ! i), loop_state task [0..<nrows X_v] s (Suc i))"
      by (simp add: task_def)
    from call_individual_Inr [OF this]
    show "individual e (loop_state task [0..<nrows X_v] s i) (SArr (Vec (rows X_v ! i))) X_ref
           (case kw ''y'' of Some v \<Rightarrow> v | None \<Rightarrow> PNone)
           ((kw(''verbose'' \<mapsto> PBool False))(''y'' := None))
         = (Inr (M ! i), loop_state task [0..<nrows X_v] s (Suc i))"
      by simp
  qed
  have names_kept: "\<And>k. feature_names_fit (loop_state task [0..<nrows X_v] s k) = Some names"
  proof -
    fix k
    have "only_rng s (loop_state task [0..<nrows X_v] s k)"
      by (rule loop_state_only_rng) (simp add: task_def call_individual_only_rng)
    with assms(3) show "feature_names_fit (loop_state task [0..<nrows X_v] s k) = Some names"
      by (simp add: only_rng_def)
  qed
  have width: "\<forall>r\<in>set M. length r = length names"
  proof
    fix r assume "r \<in> set M"
    then obtain i where i: "i < length M" and r: "r = M ! i"
      by (auto simp: in_set_conv_nth)
    from i len have "i < nrows X_v" by simp
    from individual_length [OF nth [OF this] names_kept] r
    show "length r = length names" by simp
  qed
  show ?thesis
    unfolding Let_def
    apply (intro conjI)
       apply (rule len)
      apply (rule width)
     apply (simp add: width)
    apply (rule exI [of _ X_ref])
    apply (intro conjI ref1 ref2 allI impI)
    apply (erule nth [unfolded task_def])
    done
qed

theorem all_matrix_witness:
  "all ex_env ex_fitted (PTable data_table) PNone Map.empty = (Inr [[2], [4]], ex_fitted\<lparr>priv_rng := Some 9\<rparr>)
   \<and> check_inputs ex_env (PTable data_table) PNone = Inr (data_table, PNone)
   \<and> feature_names_fit ex_fitted = Some [FInt 0]
   \<and> length [[2], [4::real]] = nrows data_table
   \<and> map length [[2], [4::real]] = [ncols data_table, ncols data_table]"
proof -
  have a: "check_inputs ex_env (PTable data_table) PNone = Inr (data_table, PNone)"
    by (simp add: ex_env_sel ex_check_inputs_def)
  have b: "feature_names_fit ex_fitted = Some [FInt 0]"
    by (simp add: ex_fitted_eq)
  have c: "length [FInt 0] = ncols data_table"
    by (simp add: data_table_def)
  from all_matrix [OF ex_all a b] c
  have "length [[2], [4::real]] = nrows data_table
        \<and> (\<forall>r\<in>set [[2], [4::real]]. length r = ncols data_table)"
    by blast
  then have "length [[2], [4::real]] = nrows data_table
        \<and> map length [[2], [4::real]] = [ncols data_table, ncols data_table]"
    by simp
  with a b ex_all show ?thesis by blast
qed

text \<open>
  C9. When \<^verbatim>\<open>pairwise_set\<close> returns, the matrix has one row per aligned pair, as many rows
  as the shorter of the two sequences has entries, and its \<open>i\<close>-th row is what
  \<^verbatim>\<open>pairwise(samples1[i], samples2[i], verbose=False, **kwargs)\<close> returned on the object as
  the pairs before it left it.
\<close>

theorem pairwise_set_rows:
  fixes s :: "('f, 'q, 'g) sharp"
  assumes "pairwise_set e s samples1 samples2 kw = (Inr M, s')"
  shows "length M = min (length samples1) (length samples2)
         \<and> (let task = (\<lambda>samples st. call_pairwise e st (fst samples) (snd samples)
                                        [(''verbose'', PBool False)] kw);
                 state = loop_state task (zip samples1 samples2) s
             in \<forall>i<length M.
                  pairwise e (state i) (samples1 ! i) (samples2 ! i) (kw(''verbose'' \<mapsto> PBool False))
                    = (Inr (M ! i), state (Suc i)))"
proof -
  define task :: "sample \<times> sample \<Rightarrow> ('f, 'q, 'g) sharp \<Rightarrow> (error + real list) \<times> ('f, 'q, 'g) sharp"
    where "task = (\<lambda>samples st. call_pairwise e st (fst samples) (snd samples)
                                        [(''verbose'', PBool False)] kw)"
  from assms have run:
    "parallel_loop task (zip samples1 samples2) (n_jobs s) (PInt (verbose s)) s = (Inr M, s')"
    by (simp add: pairwise_set_def task_def)
  have len: "length M = min (length samples1) (length samples2)"
    using parallel_loop_length [OF run] by simp
  have nth: "\<forall>i<length M.
       pairwise e (loop_state task (zip samples1 samples2) s i) (samples1 ! i) (samples2 ! i)
           (kw(''verbose'' \<mapsto> PBool False))
         = (Inr (M ! i), loop_state task (zip samples1 samples2) s (Suc i))"
  proof (intro allI impI)
    fix i assume i: "i < length M"
    with len have iz: "i < length (zip samples1 samples2)" by simp
    from parallel_loop_nth [OF run iz] iz
    have "call_pairwise e (loop_state task (zip samples1 samples2) s i) (samples1 ! i) (samples2 ! i)
            [(''verbose'', PBool False)] kw
          = (Inr (M ! i), loop_state task (zip samples1 samples2) s (Suc i))"
      by (simp add: task_def)
    from call_pairwise_Inr [OF this]
    show "pairwise e (loop_state task (zip samples1 samples2) s i) (samples1 ! i) (samples2 ! i)
           (kw(''verbose'' \<mapsto> PBool False))
         = (Inr (M ! i), loop_state task (zip samples1 samples2) s (Suc i))"
      by simp
  qed
  show ?thesis
    using len nth unfolding Let_def task_def by blast
qed


theorem pairwise_set_rows_witness:
  "pairwise_set ex_env ex_fitted [SArr (Vec [2]), SArr (Vec [5])] [SArr (Vec [1])] Map.empty
     = (Inr [[1]], ex_fitted\<lparr>priv_rng := Some 8\<rparr>)
   \<and> length [[1::real]] = min (length [SArr (Vec [2]), SArr (Vec [5])]) (length [SArr (Vec [1])])"
  using pairwise_set_rows [OF ex_pairwise_set] ex_pairwise_set by blast







text \<open>
  C10. In \<^verbatim>\<open>pairwise(sample1, sample2)\<close> without a \<^verbatim>\<open>sample_size\<close> keyword, the measure is
  called with an effective \<^verbatim>\<open>sample_size\<close> that is the number of rows of (the reshaped)
  \<^verbatim>\<open>sample2\<close> when the \<^verbatim>\<open>sample_size\<close> of the object exceeds it, the \<^verbatim>\<open>sample_size\<close> of the
  object when it does not, and the number of rows of \<^verbatim>\<open>sample2\<close> when the object has none;
  a one-dimensional \<^verbatim>\<open>sample2\<close> has one row.
\<close>

theorem pairwise_sample_size_clamp:
  fixes s :: "('f, 'q, 'g) sharp"
  assumes "kw ''sample_size'' = None"
    and "kw ''X'' = None" "kw ''coalition_size'' = None" "kw ''self'' = None" "kw ''sample'' = None"
    and "check_inputs e (PTable (reshape_row a2))
           (case kw ''y'' of Some v \<Rightarrow> v | None \<Rightarrow> PNone) = Inr (X_v, y_v)"
    and "feature_names_fit s = Some names"
  shows "\<exists>eff.
           pairwise e s (SArr a1) (SArr a2) kw =
             parallel_loop
               (\<lambda>col_idx st. call_measure st (SArr a1) (int col_idx)
                  (case kw ''set_cols_idx'' of Some v \<Rightarrow> v | None \<Rightarrow> PNone) X_v
                  (PInt eff)
                  (PInt (case coalition_size s of
                           Some c \<Rightarrow> c
                         | None \<Rightarrow> int (shape_last a1) - 1)))
               [0..<length names] (n_jobs s)
               (case kw ''verbose'' of Some v \<Rightarrow> v | None \<Rightarrow> PInt (verbose s)) s
           \<and> (\<forall>n. sample_size s = Some n \<and> n > int (nrows (reshape_row a2))
                  \<longrightarrow> eff = int (nrows (reshape_row a2)))
           \<and> (\<forall>n. sample_size s = Some n \<and> n \<le> int (nrows (reshape_row a2)) \<longrightarrow> eff = n)
           \<and> (sample_size s = None \<longrightarrow> eff = int (nrows (reshape_row a2)))
           \<and> (\<forall>v. a2 = Vec v \<longrightarrow> nrows (reshape_row a2) = 1)"
proof -
  define eff where "eff = (case sample_size s of
                                Some n \<Rightarrow> min n (int (nrows (reshape_row a2)))
                              | None \<Rightarrow> int (nrows (reshape_row a2)))"
  have X: "(if PTable (reshape_row a2) = PNone
            then (case qoi_fit s of None \<Rightarrow> Inl AttributeError | Some q \<Rightarrow> qoi_X_attr e q)
            else Inr (PTable (reshape_row a2))) = Inr (PTable (reshape_row a2))"
    by simp
  have row: "(case SArr a1 of SIdx i \<Rightarrow> getitem_row X_v i | _ \<Rightarrow> Inr (SArr a1)) = Inr (SArr a1)"
    by simp
  have run: "pairwise e s (SArr a1) (SArr a2) kw =
             parallel_loop
               (\<lambda>col_idx st. call_measure st (SArr a1) (int col_idx)
                  (case kw ''set_cols_idx'' of Some v \<Rightarrow> v | None \<Rightarrow> PNone) X_v
                  (PInt eff)
                  (PInt (case coalition_size s of
                           Some c \<Rightarrow> c
                         | None \<Rightarrow> int (shape_last a1) - 1)))
               [0..<length names] (n_jobs s)
               (case kw ''verbose'' of Some v \<Rightarrow> v | None \<Rightarrow> PInt (verbose s)) s"
    unfolding pairwise_arrays [OF assms(2) assms(1) assms(3,4,5)]
    by (simp add: individual_eq [OF X assms(6) row assms(7)] eff_def)
  have one: "\<forall>v. a2 = Vec v \<longrightarrow> nrows (reshape_row a2) = 1"
    by (simp add: reshape_row_def nrows_def)
  show ?thesis
    apply (rule exI [of _ eff])
    apply (intro conjI)
        apply (rule run)
       apply (simp add: eff_def)
      apply (simp add: eff_def)
     apply (simp add: eff_def)
    apply (rule one)
    done
qed

theorem pairwise_sample_size_clamp_witness:
  "Map.empty ''sample_size'' = (None :: pyval option) \<and> Map.empty ''X'' = (None :: pyval option)
   \<and> Map.empty ''coalition_size'' = (None :: pyval option)
   \<and> Map.empty ''self'' = (None :: pyval option) \<and> Map.empty ''sample'' = (None :: pyval option)
   \<and> check_inputs ex_env (PTable (reshape_row (Vec [1]))) PNone = Inr (Matrix 1 [[1]], PNone)
   \<and> feature_names_fit (ex_fitted\<lparr>sample_size := Some 5\<rparr>) = Some [FInt 0]
   \<and> pairwise ex_env (ex_fitted\<lparr>sample_size := Some 5\<rparr>) (SArr (Vec [2])) (SArr (Vec [1])) Map.empty =
        parallel_loop
          (\<lambda>col_idx st. call_measure st (SArr (Vec [2])) (int col_idx) PNone (Matrix 1 [[1]])
             (PInt 1) (PInt 0))
          [0] 1 (PInt 0) (ex_fitted\<lparr>sample_size := Some 5\<rparr>)"
proof -
  have h6: "check_inputs ex_env (PTable (reshape_row (Vec [1]))) (case Map.empty ''y'' of Some v \<Rightarrow> v | None \<Rightarrow> PNone)
              = Inr (Matrix 1 [[1]], PNone)"
    by (simp add: ex_env_sel ex_check_inputs_def reshape_row_def)
  have h7: "feature_names_fit (ex_fitted\<lparr>sample_size := Some 5\<rparr>) = Some [FInt 0]"
    by (simp add: ex_fitted_eq)
  have c: "sample_size (ex_fitted\<lparr>sample_size := Some 5\<rparr>) = Some 5
           \<and> coalition_size (ex_fitted\<lparr>sample_size := Some 5\<rparr>) = None
           \<and> n_jobs (ex_fitted\<lparr>sample_size := Some 5\<rparr>) = 1
           \<and> verbose (ex_fitted\<lparr>sample_size := Some 5\<rparr>) = 0"
    by (simp add: ex_fitted_eq ex_config_def)
  have r: "nrows (reshape_row (Vec [1])) = 1 \<and> shape_last (Vec [2]) = 1"
    by (simp add: reshape_row_def nrows_def shape_last_def)
  from pairwise_sample_size_clamp [of "Map.empty" ex_env "Vec [1]" "Matrix 1 [[1]]" PNone
         "ex_fitted\<lparr>sample_size := Some 5\<rparr>" "[FInt 0]" "Vec [2]", OF _ _ _ _ _ h6 h7] c r
  have "pairwise ex_env (ex_fitted\<lparr>sample_size := Some 5\<rparr>) (SArr (Vec [2])) (SArr (Vec [1])) Map.empty =
        parallel_loop
          (\<lambda>col_idx st. call_measure st (SArr (Vec [2])) (int col_idx) PNone (Matrix 1 [[1]])
             (PInt 1) (PInt 0))
          [0] 1 (PInt 0) (ex_fitted\<lparr>sample_size := Some 5\<rparr>)"
    by auto
  with h6 h7 show ?thesis by simp
qed









end
